theory Spec2Isabelle
  imports Main "HOL-Library.Word"
begin

unbundle bit_operations_syntax

section \<open>The 9P2000 / 9P2000.e message parser of libstyxe\<close>

text \<open>
  A shallow embedding of \<^verbatim>\<open>include/styxe/9p2000.hpp\<close> and \<^verbatim>\<open>src/9p2000.cpp\<close>:
  the parser state, the header parser, the request and response payload parsers and the
  setter of the negotiated message size.
\<close>

subsection \<open>Basic types\<close>

type_synonym byte = "8 word"
type_synonym uint16 = "16 word"
type_synonym uint32 = "32 word"
type_synonym uint64 = "64 word"

text \<open>\<^verbatim>\<open>using size_type = Solace::uint32\<close>, \<^verbatim>\<open>var_datum_size_type = uint16\<close>,
  \<^verbatim>\<open>Tag = uint16\<close>, \<^verbatim>\<open>Fid = uint32\<close>.\<close>

type_synonym size_type = uint32
type_synonym var_datum_size_type = uint16
type_synonym Tag = uint16
type_synonym Fid = uint32

text \<open>A \<^verbatim>\<open>Solace::ByteReader\<close> is a cursor over a buffer; only the bytes from the cursor
  to the end of the buffer matter to the parser, so the cursor is the list of the bytes that
  remain. \<^verbatim>\<open>StringView\<close> and \<^verbatim>\<open>MemoryView\<close> values borrowed from the buffer are byte lists.\<close>

type_synonym bytes = "byte list"

definition remaining :: "bytes \<Rightarrow> nat" where
  "remaining src = length src"

text \<open>\<^verbatim>\<open>enum class CannedError\<close>, in the order of its declaration.\<close>

datatype CannedError =
    IllFormedHeader
  | IllFormedHeader_FrameTooShort
  | IllFormedHeader_TooBig
  | UnsupportedMessageType
  | NotEnoughData
  | MoreThenExpectedData

text \<open>
  The outcome of a parsing function. \<open>Ok\<close> and \<open>Err\<close> are the two cases of
  \<^verbatim>\<open>Solace::Result<T, Error>\<close>. \<open>OutOfBounds i\<close> is not a value the C++ returns: it marks
  the point where the code indexes \<^verbatim>\<open>Response::Walk::qids\<close>, an array of 16 elements, at an
  index \<open>i\<close> of 16 or more, which is undefined behaviour in C++.
\<close>

datatype 'a Result = Ok 'a | Err CannedError | OutOfBounds nat

definition andThen :: "'a Result \<Rightarrow> ('a \<Rightarrow> 'b Result) \<Rightarrow> 'b Result" where
  "andThen r f = (case r of Ok x \<Rightarrow> f x | Err e \<Rightarrow> Err e | OutOfBounds i \<Rightarrow> OutOfBounds i)"

subsection \<open>Message types and the header\<close>

text \<open>
  \<^verbatim>\<open>enum class MessageType : Solace::byte\<close>. The header parser casts any byte of the
  wire to the enumeration (\<^verbatim>\<open>static_cast<MessageType>(messageBytecode)\<close>), so a value of
  the type is any byte and the enumerators are named constants.
\<close>

type_synonym MessageType = byte

definition beginSupportedMessageCode :: MessageType where "beginSupportedMessageCode = 100"
definition TVersion :: MessageType where "TVersion = 100"
definition RVersion :: MessageType where "RVersion = 101"
definition TAuth :: MessageType where "TAuth = 102"
definition RAuth :: MessageType where "RAuth = 103"
definition TAttach :: MessageType where "TAttach = 104"
definition RAttach :: MessageType where "RAttach = 105"
definition TError :: MessageType where "TError = 106"
definition RError :: MessageType where "RError = 107"
definition TFlush :: MessageType where "TFlush = 108"
definition RFlush :: MessageType where "RFlush = 109"
definition TWalk :: MessageType where "TWalk = 110"
definition RWalk :: MessageType where "RWalk = 111"
definition TOpen :: MessageType where "TOpen = 112"
definition ROpen :: MessageType where "ROpen = 113"
definition TCreate :: MessageType where "TCreate = 114"
definition RCreate :: MessageType where "RCreate = 115"
definition TRead :: MessageType where "TRead = 116"
definition RRead :: MessageType where "RRead = 117"
definition TWrite :: MessageType where "TWrite = 118"
definition RWrite :: MessageType where "RWrite = 119"
definition TClunk :: MessageType where "TClunk = 120"
definition RClunk :: MessageType where "RClunk = 121"
definition TRemove :: MessageType where "TRemove = 122"
definition RRemove :: MessageType where "RRemove = 123"
definition TStat :: MessageType where "TStat = 124"
definition RStat :: MessageType where "RStat = 125"
definition TWStat :: MessageType where "TWStat = 126"
definition RWStat :: MessageType where "RWStat = 127"
definition TSession :: MessageType where "TSession = 150"
definition RSession :: MessageType where "RSession = 151"
definition TSRead :: MessageType where "TSRead = 152"
definition RSRead :: MessageType where "RSRead = 153"
definition TSWrite :: MessageType where "TSWrite = 154"
definition RSWrite :: MessageType where "RSWrite = 155"
definition endSupportedMessageCode :: MessageType where "endSupportedMessageCode = 156"

lemmas MessageType_defs =
  beginSupportedMessageCode_def endSupportedMessageCode_def
  TVersion_def RVersion_def TAuth_def RAuth_def TAttach_def RAttach_def TError_def RError_def
  TFlush_def RFlush_def TWalk_def RWalk_def TOpen_def ROpen_def TCreate_def RCreate_def
  TRead_def RRead_def TWrite_def RWrite_def TClunk_def RClunk_def TRemove_def RRemove_def
  TStat_def RStat_def TWStat_def RWStat_def
  TSession_def RSession_def TSRead_def RSRead_def TSWrite_def RSWrite_def

record MessageHeader =
  messageSize :: size_type
  type :: MessageType
  tag :: Tag

text \<open>\<^verbatim>\<open>headerSize()\<close>: the sizes of the three header fields, 4 + 1 + 2.\<close>

definition headerSize :: size_type where
  "headerSize = 4 + 1 + 2"

text \<open>\<^verbatim>\<open>MessageHeader::payloadSize()\<close>: a subtraction of \<^verbatim>\<open>uint32\<close> values, which wraps
  around when \<open>messageSize\<close> is less than 7.\<close>

definition payloadSize :: "MessageHeader \<Rightarrow> size_type" where
  "payloadSize h = messageSize h - headerSize"

definition makeHeaderWithPayload :: "MessageType \<Rightarrow> Tag \<Rightarrow> size_type \<Rightarrow> MessageHeader" where
  "makeHeaderWithPayload ty tg psize = \<lparr>messageSize = headerSize + psize, type = ty, tag = tg\<rparr>"

subsection \<open>The parser state\<close>

definition kMaxMesssageSize :: size_type where
  "kMaxMesssageSize = 8 * 1024"

definition PROTOCOL_VERSION :: string where
  "PROTOCOL_VERSION = ''9P2000.e''"

definition UNKNOWN_PROTOCOL_VERSION :: string where
  "UNKNOWN_PROTOCOL_VERSION = ''unknown''"

definition NO_TAG :: Tag where
  "NO_TAG = NOT 0"

definition NOFID :: Fid where
  "NOFID = NOT 0"

text \<open>The four private members of \<^verbatim>\<open>struct Parser\<close>.\<close>

record Parser =
  maxMassageSize :: size_type
  maxNegotiatedMessageSize_field :: size_type
  initialVersion :: string
  negotiatedVersion :: string

text \<open>The constructor \<^verbatim>\<open>Parser(maxMassageSize, version)\<close>; \<open>Parser_default\<close> is the call
  with both default arguments.\<close>

definition Parser_ctor :: "size_type \<Rightarrow> string \<Rightarrow> Parser" where
  "Parser_ctor maxSize version =
     \<lparr>maxMassageSize = maxSize, maxNegotiatedMessageSize_field = maxSize,
      initialVersion = version, negotiatedVersion = version\<rparr>"

definition Parser_default :: Parser where
  "Parser_default = Parser_ctor kMaxMesssageSize PROTOCOL_VERSION"

definition maxPossibleMessageSize :: "Parser \<Rightarrow> size_type" where
  "maxPossibleMessageSize p = maxMassageSize p"

definition maxNegotiatedMessageSize :: "Parser \<Rightarrow> size_type" where
  "maxNegotiatedMessageSize p = maxNegotiatedMessageSize_field p"

definition getNegotiatedVersion :: "Parser \<Rightarrow> string" where
  "getNegotiatedVersion p = negotiatedVersion p"

definition setNegotiatedVersion :: "Parser \<Rightarrow> string \<Rightarrow> Parser" where
  "setNegotiatedVersion p version = p\<lparr>negotiatedVersion := version\<rparr>"

text \<open>
  \<^verbatim>\<open>Solace::assertIndexInRange(index, from, to)\<close> belongs to the Solace library, which
  the repository includes as \<^verbatim>\<open><solace/assert.hpp>\<close>: it returns when \<open>from \<le> index < to\<close>
  and raises \<^verbatim>\<open>IndexOutOfRangeException\<close> otherwise. The predicate is true when it returns.
\<close>

definition assertIndexInRange :: "uint32 \<Rightarrow> uint32 \<Rightarrow> uint32 \<Rightarrow> bool" where
  "assertIndexInRange index from to = (from \<le> index \<and> index < to)"

datatype Exception = IndexOutOfRangeException

text \<open>
  The setter \<^verbatim>\<open>Parser::maxNegotiatedMessageSize(newMessageSize)\<close>: the assertion, then the
  assignment of the minimum, then the return of the stored value. The result is the
  exception, or the returned value with the updated parser. The upper bound of the
  assertion is \<^verbatim>\<open>maxPossibleMessageSize() + 1\<close> in \<^verbatim>\<open>uint32\<close>, which wraps around to 0.
\<close>

definition setMaxNegotiatedMessageSize :: "Parser \<Rightarrow> size_type \<Rightarrow> Exception + (size_type \<times> Parser)" where
  "setMaxNegotiatedMessageSize p newMessageSize =
     (if \<not> assertIndexInRange newMessageSize 0 (maxPossibleMessageSize p + 1)
      then Inl IndexOutOfRangeException
      else let p' = p\<lparr>maxNegotiatedMessageSize_field := min newMessageSize (maxPossibleMessageSize p)\<rparr>
           in Inr (maxNegotiatedMessageSize_field p', p'))"

text \<open>A sequence of calls of the setter on one parser; a call that raises leaves the
  parser as it was.\<close>

fun negotiateAll :: "Parser \<Rightarrow> size_type list \<Rightarrow> Parser" where
  "negotiateAll p [] = p"
| "negotiateAll p (x # xs) =
     (case setMaxNegotiatedMessageSize p x of
        Inl e \<Rightarrow> negotiateAll p xs
      | Inr (v, p') \<Rightarrow> negotiateAll p' xs)"

subsection \<open>The decoder\<close>

text \<open>
  Modelled from the spec: \<^verbatim>\<open>styxe/decoder.hpp\<close>, the \<^verbatim>\<open>Decoder\<close> class whose
  \<^verbatim>\<open>operator>>\<close> the parser calls, is not among the sources. The spec gives its
  behaviour: all integers are little-endian, unsigned and of fixed width (1, 2, 4, 8 bytes);
  a string is a \<open>u16\<close> length followed by exactly that many bytes; a byte blob is a \<open>u32\<close>
  length followed by that many bytes; a Qid is \<open>type(u8) version(u32) path(u64)\<close>; a Stat is
  \<open>size(u16) type(u16) dev(u32) qid mode(u32) atime(u32) mtime(u32) length(u64)\<close> and the
  four strings \<open>name, uid, gid, muid\<close>; a WalkPath is a \<open>u16\<close> count followed by that many
  strings; every primitive read fails with \<open>NotEnoughData\<close> if the cursor has fewer
  remaining bytes than requested. A decoder takes the cursor and returns the value read with
  the advanced cursor.
\<close>

fun le_nat :: "bytes \<Rightarrow> nat" where
  "le_nat [] = 0"
| "le_nat (b # bs) = unat b + 256 * le_nat bs"

definition readBytes :: "nat \<Rightarrow> bytes \<Rightarrow> (bytes \<times> bytes) Result" where
  "readBytes n src = (if remaining src < n then Err NotEnoughData else Ok (take n src, drop n src))"

definition decode_byte :: "bytes \<Rightarrow> (byte \<times> bytes) Result" where
  "decode_byte src = andThen (readBytes 1 src) (\<lambda>(bs, rest). Ok (of_nat (le_nat bs), rest))"

definition decode_uint16 :: "bytes \<Rightarrow> (uint16 \<times> bytes) Result" where
  "decode_uint16 src = andThen (readBytes 2 src) (\<lambda>(bs, rest). Ok (of_nat (le_nat bs), rest))"

definition decode_uint32 :: "bytes \<Rightarrow> (uint32 \<times> bytes) Result" where
  "decode_uint32 src = andThen (readBytes 4 src) (\<lambda>(bs, rest). Ok (of_nat (le_nat bs), rest))"

definition decode_uint64 :: "bytes \<Rightarrow> (uint64 \<times> bytes) Result" where
  "decode_uint64 src = andThen (readBytes 8 src) (\<lambda>(bs, rest). Ok (of_nat (le_nat bs), rest))"

definition decode_string :: "bytes \<Rightarrow> (bytes \<times> bytes) Result" where
  "decode_string src = andThen (decode_uint16 src) (\<lambda>(n, rest). readBytes (unat n) rest)"

definition decode_blob :: "bytes \<Rightarrow> (bytes \<times> bytes) Result" where
  "decode_blob src = andThen (decode_uint32 src) (\<lambda>(n, rest). readBytes (unat n) rest)"

record Qid =
  qid_type :: byte
  qid_version :: uint32
  qid_path :: uint64

definition decode_Qid :: "bytes \<Rightarrow> (Qid \<times> bytes) Result" where
  "decode_Qid src =
     andThen (decode_byte src) (\<lambda>(t, r1).
     andThen (decode_uint32 r1) (\<lambda>(v, r2).
     andThen (decode_uint64 r2) (\<lambda>(p, r3).
     Ok (\<lparr>qid_type = t, qid_version = v, qid_path = p\<rparr>, r3))))"

record Stat =
  stat_size :: uint16
  stat_type :: uint16
  stat_dev :: uint32
  stat_qid :: Qid
  stat_mode :: uint32
  stat_atime :: uint32
  stat_mtime :: uint32
  stat_length :: uint64
  stat_name :: bytes
  stat_uid :: bytes
  stat_gid :: bytes
  stat_muid :: bytes

definition decode_Stat :: "bytes \<Rightarrow> (Stat \<times> bytes) Result" where
  "decode_Stat src =
     andThen (decode_uint16 src) (\<lambda>(sz, r1).
     andThen (decode_uint16 r1) (\<lambda>(ty, r2).
     andThen (decode_uint32 r2) (\<lambda>(dv, r3).
     andThen (decode_Qid r3) (\<lambda>(q, r4).
     andThen (decode_uint32 r4) (\<lambda>(md, r5).
     andThen (decode_uint32 r5) (\<lambda>(at, r6).
     andThen (decode_uint32 r6) (\<lambda>(mt, r7).
     andThen (decode_uint64 r7) (\<lambda>(ln, r8).
     andThen (decode_string r8) (\<lambda>(nm, r9).
     andThen (decode_string r9) (\<lambda>(ui, r10).
     andThen (decode_string r10) (\<lambda>(gi, r11).
     andThen (decode_string r11) (\<lambda>(mu, r12).
     Ok (\<lparr>stat_size = sz, stat_type = ty, stat_dev = dv, stat_qid = q, stat_mode = md,
          stat_atime = at, stat_mtime = mt, stat_length = ln, stat_name = nm, stat_uid = ui,
          stat_gid = gi, stat_muid = mu\<rparr>, r12)))))))))))))"

text \<open>The strings of a WalkPath, \<open>n\<close> of them.\<close>

fun decode_strings :: "nat \<Rightarrow> bytes \<Rightarrow> (bytes list \<times> bytes) Result" where
  "decode_strings 0 src = Ok ([], src)"
| "decode_strings (Suc n) src =
     andThen (decode_string src) (\<lambda>(s, rest).
     andThen (decode_strings n rest) (\<lambda>(ss, rest'). Ok (s # ss, rest')))"

definition decode_WalkPath :: "bytes \<Rightarrow> (bytes list \<times> bytes) Result" where
  "decode_WalkPath src = andThen (decode_uint16 src) (\<lambda>(n, rest). decode_strings (unat n) rest)"

subsection \<open>The header parser\<close>

text \<open>
  \<^verbatim>\<open>Parser::parseMessageHeader\<close>. The code does not look at the results of its three
  reads: they cannot fail once 7 bytes are known to remain (lemma \<open>header_reads_succeed\<close>
  below), and the model passes a failure on. The result is the header with the cursor after
  it; where the parser fails, the position of the cursor is not part of the result.
\<close>

definition parseMessageHeader :: "Parser \<Rightarrow> bytes \<Rightarrow> (MessageHeader \<times> bytes) Result" where
  "parseMessageHeader p src =
     (let mandatoryHeaderSize = headerSize;
          dataAvailable = remaining src
      in if dataAvailable < unat mandatoryHeaderSize then Err IllFormedHeader
         else andThen (decode_uint32 src) (\<lambda>(msize, r1).
              if msize < mandatoryHeaderSize then Err IllFormedHeader_FrameTooShort
              else if msize > maxNegotiatedMessageSize p then Err IllFormedHeader_TooBig
              else andThen (decode_byte r1) (\<lambda>(messageBytecode, r2).
                   if messageBytecode < beginSupportedMessageCode \<or>
                      messageBytecode \<ge> endSupportedMessageCode
                   then Err UnsupportedMessageType
                   else andThen (decode_uint16 r2) (\<lambda>(tg, r3).
                        Ok (\<lparr>messageSize = msize, type = messageBytecode, tag = tg\<rparr>, r3)))))"

text \<open>The three fields of a header as they lie on the wire, for stating properties of the
  header parser on a buffer \<open>src\<close> of at least 7 bytes.\<close>

definition wire_size :: "bytes \<Rightarrow> uint32" where
  "wire_size src = of_nat (le_nat (take 4 src))"

definition wire_type :: "bytes \<Rightarrow> byte" where
  "wire_type src = src ! 4"

definition wire_tag :: "bytes \<Rightarrow> uint16" where
  "wire_tag src = of_nat (le_nat (take 2 (drop 5 src)))"

subsection \<open>Response messages\<close>

text \<open>
  \<^verbatim>\<open>ResponseMessage\<close>, the variant over the structs of \<^verbatim>\<open>Response\<close> and
  \<^verbatim>\<open>Response_9P2000E\<close>, in the order of its declaration. \<^verbatim>\<open>Response::Walk\<close> holds
  \<open>nqids\<close> and the array \<^verbatim>\<open>Qid qids[16]\<close>: a list of 16 slots, where \<open>None\<close> is a slot the
  parser never wrote (the C++ leaves it uninitialised).
\<close>

datatype ResponseMessage =
    Response_Version size_type bytes
  | Response_Auth Qid
  | Response_Attach Qid
  | Response_Error bytes
  | Response_Flush
  | Response_Walk var_datum_size_type "Qid option list"
  | Response_Open Qid size_type
  | Response_Create Qid size_type
  | Response_Read bytes
  | Response_Write size_type
  | Response_Clunk
  | Response_Remove
  | Response_Stat var_datum_size_type Stat
  | Response_WStat
  | Response_Session

definition parseErrorResponse :: "bytes \<Rightarrow> (ResponseMessage \<times> bytes) Result" where
  "parseErrorResponse src = andThen (decode_string src) (\<lambda>(ename, r). Ok (Response_Error ename, r))"

definition parseVersionResponse :: "bytes \<Rightarrow> (ResponseMessage \<times> bytes) Result" where
  "parseVersionResponse src =
     andThen (decode_uint32 src) (\<lambda>(msize, r1).
     andThen (decode_string r1) (\<lambda>(version, r2). Ok (Response_Version msize version, r2)))"

definition parseAuthResponse :: "bytes \<Rightarrow> (ResponseMessage \<times> bytes) Result" where
  "parseAuthResponse src = andThen (decode_Qid src) (\<lambda>(qid, r). Ok (Response_Auth qid, r))"

definition parseAttachResponse :: "bytes \<Rightarrow> (ResponseMessage \<times> bytes) Result" where
  "parseAttachResponse src = andThen (decode_Qid src) (\<lambda>(qid, r). Ok (Response_Attach qid, r))"

definition parseOpenResponse :: "bytes \<Rightarrow> (ResponseMessage \<times> bytes) Result" where
  "parseOpenResponse src =
     andThen (decode_Qid src) (\<lambda>(qid, r1).
     andThen (decode_uint32 r1) (\<lambda>(iounit, r2). Ok (Response_Open qid iounit, r2)))"

definition parseCreateResponse :: "bytes \<Rightarrow> (ResponseMessage \<times> bytes) Result" where
  "parseCreateResponse src =
     andThen (decode_Qid src) (\<lambda>(qid, r1).
     andThen (decode_uint32 r1) (\<lambda>(iounit, r2). Ok (Response_Create qid iounit, r2)))"

definition parseReadResponse :: "bytes \<Rightarrow> (ResponseMessage \<times> bytes) Result" where
  "parseReadResponse src = andThen (decode_blob src) (\<lambda>(dat, r). Ok (Response_Read dat, r))"

definition parseWriteResponse :: "bytes \<Rightarrow> (ResponseMessage \<times> bytes) Result" where
  "parseWriteResponse src = andThen (decode_uint32 src) (\<lambda>(count, r). Ok (Response_Write count, r))"

definition parseStatResponse :: "bytes \<Rightarrow> (ResponseMessage \<times> bytes) Result" where
  "parseStatResponse src =
     andThen (decode_uint16 src) (\<lambda>(dummySize, r1).
     andThen (decode_Stat r1) (\<lambda>(dat, r2). Ok (Response_Stat dummySize dat, r2)))"

text \<open>
  The loop of \<^verbatim>\<open>parseWalkResponse\<close>:
  \<^verbatim>\<open>for (i = 0; i < fcall.nqids && result; ++i) result = decoder >> fcall.qids[i];\<close>
  It runs while \<open>i < nqids\<close> and the last read succeeded, and has no other bound: the
  iteration with \<open>i \<ge> 16\<close> indexes the array past its end.
\<close>

function walkLoop :: "nat \<Rightarrow> nat \<Rightarrow> bytes \<Rightarrow> Qid option list \<Rightarrow> (Qid option list \<times> bytes) Result" where
  "walkLoop i nqids src qids =
     (if i < nqids then
        (if i < 16 then
           (case decode_Qid src of
              Ok (q, rest) \<Rightarrow> walkLoop (i + 1) nqids rest (qids[i := Some q])
            | Err e \<Rightarrow> Err e
            | OutOfBounds j \<Rightarrow> OutOfBounds j)
         else OutOfBounds i)
      else Ok (qids, src))"
  by pat_completeness auto
termination
  by (relation "measure (\<lambda>(i, nqids, src, qids). nqids - i)") auto

definition parseWalkResponse :: "bytes \<Rightarrow> (ResponseMessage \<times> bytes) Result" where
  "parseWalkResponse src =
     andThen (decode_uint16 src) (\<lambda>(nqids, r1).
     andThen (walkLoop 0 (unat nqids) r1 (replicate 16 None)) (\<lambda>(qids, r2).
     Ok (Response_Walk nqids qids, r2)))"

text \<open>\<^verbatim>\<open>parseNoDataResponse<T>()\<close> reads nothing.\<close>

definition parseNoDataResponse :: "ResponseMessage \<Rightarrow> bytes \<Rightarrow> (ResponseMessage \<times> bytes) Result" where
  "parseNoDataResponse msg src = Ok (msg, src)"

text \<open>The \<^verbatim>\<open>switch (header.type)\<close> of \<^verbatim>\<open>Parser::parseResponse\<close>, case by case.\<close>

definition responseSwitch :: "MessageType \<Rightarrow> bytes \<Rightarrow> (ResponseMessage \<times> bytes) Result" where
  "responseSwitch t src =
     (if t = RError then parseErrorResponse src
      else if t = RVersion then parseVersionResponse src
      else if t = RAuth then parseAuthResponse src
      else if t = RAttach then parseAttachResponse src
      else if t = RWalk then parseWalkResponse src
      else if t = ROpen then parseOpenResponse src
      else if t = RCreate then parseCreateResponse src
      else if t = RSRead then parseReadResponse src
      else if t = RRead then parseReadResponse src
      else if t = RSWrite then parseWriteResponse src
      else if t = RWrite then parseWriteResponse src
      else if t = RStat then parseStatResponse src
      else if t = RFlush then parseNoDataResponse Response_Flush src
      else if t = RClunk then parseNoDataResponse Response_Clunk src
      else if t = RRemove then parseNoDataResponse Response_Remove src
      else if t = RWStat then parseNoDataResponse Response_WStat src
      else if t = RSession then parseNoDataResponse Response_Session src
      else Err UnsupportedMessageType)"

text \<open>\<^verbatim>\<open>Parser::parseResponse\<close>: the three checks, then the switch. \<open>expectedData\<close> is a
  \<^verbatim>\<open>uint32\<close>, compared with the number of bytes that remain as unsigned numbers.\<close>

definition parseResponse :: "Parser \<Rightarrow> MessageHeader \<Rightarrow> bytes \<Rightarrow> (ResponseMessage \<times> bytes) Result" where
  "parseResponse p header dat =
     (let expectedData = payloadSize header
      in if messageSize header > maxNegotiatedMessageSize p then Err IllFormedHeader_TooBig
         else let bytesRemaining = remaining dat
              in if unat expectedData > bytesRemaining then Err NotEnoughData
                 else if unat expectedData < bytesRemaining then Err MoreThenExpectedData
                 else responseSwitch (type header) dat)"

subsection \<open>Request messages\<close>

text \<open>\<^verbatim>\<open>RequestMessage\<close>, the variant over the structs of \<^verbatim>\<open>Request\<close> and
  \<^verbatim>\<open>Request_9P2000E\<close>, in the order of its declaration.\<close>

datatype RequestMessage =
    Request_Version size_type bytes
  | Request_Auth Fid bytes bytes
  | Request_Flush Tag
  | Request_Attach Fid Fid bytes bytes
  | Request_Walk Fid Fid "bytes list"
  | Request_Open Fid byte
  | Request_Create Fid bytes uint32 byte
  | Request_Read Fid uint64 uint32
  | Request_Write Fid uint64 bytes
  | Request_Clunk Fid
  | Request_Remove Fid
  | Request_StatRequest Fid
  | Request_WStat Fid Stat
  | Request_Session "byte list"
  | Request_SRead Fid "bytes list"
  | Request_SWrite Fid "bytes list" bytes

definition parseVersionRequest :: "bytes \<Rightarrow> (RequestMessage \<times> bytes) Result" where
  "parseVersionRequest src =
     andThen (decode_uint32 src) (\<lambda>(msize, r1).
     andThen (decode_string r1) (\<lambda>(version, r2). Ok (Request_Version msize version, r2)))"

definition parseAuthRequest :: "bytes \<Rightarrow> (RequestMessage \<times> bytes) Result" where
  "parseAuthRequest src =
     andThen (decode_uint32 src) (\<lambda>(afid, r1).
     andThen (decode_string r1) (\<lambda>(uname, r2).
     andThen (decode_string r2) (\<lambda>(aname, r3). Ok (Request_Auth afid uname aname, r3))))"

definition parseFlushRequest :: "bytes \<Rightarrow> (RequestMessage \<times> bytes) Result" where
  "parseFlushRequest src = andThen (decode_uint16 src) (\<lambda>(oldtag, r). Ok (Request_Flush oldtag, r))"

definition parseAttachRequest :: "bytes \<Rightarrow> (RequestMessage \<times> bytes) Result" where
  "parseAttachRequest src =
     andThen (decode_uint32 src) (\<lambda>(fid, r1).
     andThen (decode_uint32 r1) (\<lambda>(afid, r2).
     andThen (decode_string r2) (\<lambda>(uname, r3).
     andThen (decode_string r3) (\<lambda>(aname, r4). Ok (Request_Attach fid afid uname aname, r4)))))"

definition parseWalkRequest :: "bytes \<Rightarrow> (RequestMessage \<times> bytes) Result" where
  "parseWalkRequest src =
     andThen (decode_uint32 src) (\<lambda>(fid, r1).
     andThen (decode_uint32 r1) (\<lambda>(newfid, r2).
     andThen (decode_WalkPath r2) (\<lambda>(path, r3). Ok (Request_Walk fid newfid path, r3))))"

definition parseOpenRequest :: "bytes \<Rightarrow> (RequestMessage \<times> bytes) Result" where
  "parseOpenRequest src =
     andThen (decode_uint32 src) (\<lambda>(fid, r1).
     andThen (decode_byte r1) (\<lambda>(mode, r2). Ok (Request_Open fid mode, r2)))"

definition parseCreateRequest :: "bytes \<Rightarrow> (RequestMessage \<times> bytes) Result" where
  "parseCreateRequest src =
     andThen (decode_uint32 src) (\<lambda>(fid, r1).
     andThen (decode_string r1) (\<lambda>(name, r2).
     andThen (decode_uint32 r2) (\<lambda>(perm, r3).
     andThen (decode_byte r3) (\<lambda>(mode, r4). Ok (Request_Create fid name perm mode, r4)))))"

definition parseReadRequest :: "bytes \<Rightarrow> (RequestMessage \<times> bytes) Result" where
  "parseReadRequest src =
     andThen (decode_uint32 src) (\<lambda>(fid, r1).
     andThen (decode_uint64 r1) (\<lambda>(offset, r2).
     andThen (decode_uint32 r2) (\<lambda>(count, r3). Ok (Request_Read fid offset count, r3))))"

definition parseWriteRequest :: "bytes \<Rightarrow> (RequestMessage \<times> bytes) Result" where
  "parseWriteRequest src =
     andThen (decode_uint32 src) (\<lambda>(fid, r1).
     andThen (decode_uint64 r1) (\<lambda>(offset, r2).
     andThen (decode_blob r2) (\<lambda>(dat, r3). Ok (Request_Write fid offset dat, r3))))"

definition parseClunkRequest :: "bytes \<Rightarrow> (RequestMessage \<times> bytes) Result" where
  "parseClunkRequest src = andThen (decode_uint32 src) (\<lambda>(fid, r). Ok (Request_Clunk fid, r))"

definition parseRemoveRequest :: "bytes \<Rightarrow> (RequestMessage \<times> bytes) Result" where
  "parseRemoveRequest src = andThen (decode_uint32 src) (\<lambda>(fid, r). Ok (Request_Remove fid, r))"

definition parseStatRequest :: "bytes \<Rightarrow> (RequestMessage \<times> bytes) Result" where
  "parseStatRequest src = andThen (decode_uint32 src) (\<lambda>(fid, r). Ok (Request_StatRequest fid, r))"

definition parseWStatRequest :: "bytes \<Rightarrow> (RequestMessage \<times> bytes) Result" where
  "parseWStatRequest src =
     andThen (decode_uint32 src) (\<lambda>(fid, r1).
     andThen (decode_Stat r1) (\<lambda>(stat, r2). Ok (Request_WStat fid stat, r2)))"

text \<open>\<^verbatim>\<open>parseSessionRequest\<close> reads the eight bytes of the key one after the other.\<close>

definition parseSessionRequest :: "bytes \<Rightarrow> (RequestMessage \<times> bytes) Result" where
  "parseSessionRequest src =
     andThen (decode_byte src) (\<lambda>(k0, r0).
     andThen (decode_byte r0) (\<lambda>(k1, r1).
     andThen (decode_byte r1) (\<lambda>(k2, r2).
     andThen (decode_byte r2) (\<lambda>(k3, r3).
     andThen (decode_byte r3) (\<lambda>(k4, r4).
     andThen (decode_byte r4) (\<lambda>(k5, r5).
     andThen (decode_byte r5) (\<lambda>(k6, r6).
     andThen (decode_byte r6) (\<lambda>(k7, r7).
     Ok (Request_Session [k0, k1, k2, k3, k4, k5, k6, k7], r7)))))))))"

definition parseShortReadRequest :: "bytes \<Rightarrow> (RequestMessage \<times> bytes) Result" where
  "parseShortReadRequest src =
     andThen (decode_uint32 src) (\<lambda>(fid, r1).
     andThen (decode_WalkPath r1) (\<lambda>(path, r2). Ok (Request_SRead fid path, r2)))"

definition parseShortWriteRequest :: "bytes \<Rightarrow> (RequestMessage \<times> bytes) Result" where
  "parseShortWriteRequest src =
     andThen (decode_uint32 src) (\<lambda>(fid, r1).
     andThen (decode_WalkPath r1) (\<lambda>(path, r2).
     andThen (decode_blob r2) (\<lambda>(dat, r3). Ok (Request_SWrite fid path dat, r3))))"

text \<open>The \<^verbatim>\<open>switch (header.type)\<close> of \<^verbatim>\<open>Parser::parseRequest\<close>, case by case.\<close>

definition requestSwitch :: "MessageType \<Rightarrow> bytes \<Rightarrow> (RequestMessage \<times> bytes) Result" where
  "requestSwitch t src =
     (if t = TVersion then parseVersionRequest src
      else if t = TAuth then parseAuthRequest src
      else if t = TFlush then parseFlushRequest src
      else if t = TAttach then parseAttachRequest src
      else if t = TWalk then parseWalkRequest src
      else if t = TOpen then parseOpenRequest src
      else if t = TCreate then parseCreateRequest src
      else if t = TRead then parseReadRequest src
      else if t = TWrite then parseWriteRequest src
      else if t = TClunk then parseClunkRequest src
      else if t = TRemove then parseRemoveRequest src
      else if t = TStat then parseStatRequest src
      else if t = TWStat then parseWStatRequest src
      else if t = TSession then parseSessionRequest src
      else if t = TSRead then parseShortReadRequest src
      else if t = TSWrite then parseShortWriteRequest src
      else Err UnsupportedMessageType)"

definition parseRequest :: "Parser \<Rightarrow> MessageHeader \<Rightarrow> bytes \<Rightarrow> (RequestMessage \<times> bytes) Result" where
  "parseRequest p header dat =
     (let expectedData = payloadSize header
      in if messageSize header > maxNegotiatedMessageSize p then Err IllFormedHeader_TooBig
         else let bytesRemaining = remaining dat
              in if unat expectedData > bytesRemaining then Err NotEnoughData
                 else if unat expectedData < bytesRemaining then Err MoreThenExpectedData
                 else requestSwitch (type header) dat)"

section \<open>Properties\<close>

subsection \<open>The header parser\<close>

lemma unat_headerSize: "unat headerSize = 7"
  by (simp add: headerSize_def)

lemma decode_uint32_wire:
  "4 \<le> length src \<Longrightarrow> decode_uint32 src = Ok (wire_size src, drop 4 src)"
  by (simp add: decode_uint32_def readBytes_def remaining_def andThen_def wire_size_def)

lemma decode_byte_wire:
  "5 \<le> length src \<Longrightarrow> decode_byte (drop 4 src) = Ok (wire_type src, drop 5 src)"
proof -
  assume a: "5 \<le> length src"
  then have "take 1 (drop 4 src) = [src ! 4]"
    by (cases "drop 4 src") (auto simp: hd_drop_conv_nth take_Suc_conv_app_nth dest: arg_cong[where f=hd])
  then show ?thesis using a
    by (simp add: decode_byte_def readBytes_def remaining_def andThen_def wire_type_def)
qed

lemma decode_uint16_wire:
  "7 \<le> length src \<Longrightarrow> decode_uint16 (drop 5 src) = Ok (wire_tag src, drop 7 src)"
  by (simp add: decode_uint16_def readBytes_def remaining_def andThen_def wire_tag_def)

lemma header_reads_succeed:
  "7 \<le> remaining src \<Longrightarrow>
     decode_uint32 src = Ok (wire_size src, drop 4 src) \<and>
     decode_byte (drop 4 src) = Ok (wire_type src, drop 5 src) \<and>
     decode_uint16 (drop 5 src) = Ok (wire_tag src, drop 7 src)"
  by (simp add: remaining_def decode_uint32_wire decode_byte_wire decode_uint16_wire)

lemma parseMessageHeader_unfold:
  "7 \<le> remaining src \<Longrightarrow>
   parseMessageHeader p src =
     (if wire_size src < 7 then Err IllFormedHeader_FrameTooShort
      else if maxNegotiatedMessageSize p < wire_size src then Err IllFormedHeader_TooBig
      else if wire_type src < 100 \<or> 156 \<le> wire_type src then Err UnsupportedMessageType
      else Ok (\<lparr>messageSize = wire_size src, type = wire_type src, tag = wire_tag src\<rparr>, drop 7 src))"
  using header_reads_succeed[of src]
  by (simp add: parseMessageHeader_def unat_headerSize andThen_def headerSize_def
      beginSupportedMessageCode_def endSupportedMessageCode_def)

text \<open>
  Claim C6. For every input buffer with fewer than 7 bytes remaining,
  \<^verbatim>\<open>Parser::parseMessageHeader\<close> returns the \<open>IllFormedHeader\<close> error.
\<close>

theorem C6_header_guard:
  "remaining src < 7 \<Longrightarrow> parseMessageHeader p src = Err IllFormedHeader"
  by (simp add: parseMessageHeader_def unat_headerSize)

theorem C6_header_guard_witness:
  "remaining [19, 0, 0, 0, 100, 255] < 7 \<and>
   parseMessageHeader Parser_default [19, 0, 0, 0, 100, 255] = Err IllFormedHeader"
  using C6_header_guard [of "[19, 0, 0, 0, 100, 255]" Parser_default]
  by (simp add: remaining_def)

text \<open>
  Claim C5. For every input buffer with at least 7 bytes remaining, the header parser fails
  with \<open>IllFormedHeader_FrameTooShort\<close> when the little-endian \<open>u32\<close> size field is less
  than 7, and otherwise fails with \<open>IllFormedHeader_TooBig\<close> when the size field exceeds the
  negotiated maximum message size. The check of the short frame comes first: a size field
  that is both less than 7 and greater than the negotiated size is not reported as too big.
\<close>

theorem C5_size_guards:
  "7 \<le> remaining src \<Longrightarrow>
     (wire_size src < 7 \<longrightarrow> parseMessageHeader p src = Err IllFormedHeader_FrameTooShort) \<and>
     (\<not> wire_size src < 7 \<and> maxNegotiatedMessageSize p < wire_size src \<longrightarrow>
        parseMessageHeader p src = Err IllFormedHeader_TooBig) \<and>
     (wire_size src < 7 \<and> maxNegotiatedMessageSize p < wire_size src \<longrightarrow>
        parseMessageHeader p src \<noteq> Err IllFormedHeader_TooBig)"
  by (simp add: parseMessageHeader_unfold)

theorem C5_size_guards_witness:
  "7 \<le> remaining [5, 0, 0, 0, 100, 0, 0] \<and>
   wire_size [5, 0, 0, 0, 100, 0, 0] < 7 \<and>
   parseMessageHeader Parser_default [5, 0, 0, 0, 100, 0, 0] = Err IllFormedHeader_FrameTooShort \<and>
   7 \<le> remaining [0, 16, 0, 0, 100, 0, 0] \<and>
   \<not> wire_size [0, 16, 0, 0, 100, 0, 0] < 7 \<and>
   maxNegotiatedMessageSize (Parser_ctor 256 PROTOCOL_VERSION) < wire_size [0, 16, 0, 0, 100, 0, 0] \<and>
   parseMessageHeader (Parser_ctor 256 PROTOCOL_VERSION) [0, 16, 0, 0, 100, 0, 0] = Err IllFormedHeader_TooBig \<and>
   wire_size [5, 0, 0, 0, 100, 0, 0] < 7 \<and>
   maxNegotiatedMessageSize (Parser_ctor 4 PROTOCOL_VERSION) < wire_size [5, 0, 0, 0, 100, 0, 0] \<and>
   parseMessageHeader (Parser_ctor 4 PROTOCOL_VERSION) [5, 0, 0, 0, 100, 0, 0] = Err IllFormedHeader_FrameTooShort \<and>
   parseMessageHeader (Parser_ctor 4 PROTOCOL_VERSION) [5, 0, 0, 0, 100, 0, 0] \<noteq> Err IllFormedHeader_TooBig"
  using C5_size_guards [of "[5, 0, 0, 0, 100, 0, 0]" Parser_default]
        C5_size_guards [of "[0, 16, 0, 0, 100, 0, 0]" "Parser_ctor 256 PROTOCOL_VERSION"]
        C5_size_guards [of "[5, 0, 0, 0, 100, 0, 0]" "Parser_ctor 4 PROTOCOL_VERSION"]
  by (simp add: remaining_def wire_size_def maxNegotiatedMessageSize_def Parser_ctor_def)

text \<open>
  Claim C7. The header parser does not check that the bytes after the header cover the
  declared payload: for every buffer that holds a well-formed 7-byte header (size field in
  \<open>[7, negotiated size]\<close>, type code in \<open>100..127\<close> or \<open>150..155\<close>), it succeeds with the
  three fields of the wire and leaves the cursor exactly 7 bytes further, whatever the number
  of bytes after the header.
\<close>

theorem C7_header_only:
  "7 \<le> remaining src \<Longrightarrow>
   7 \<le> wire_size src \<Longrightarrow> wire_size src \<le> maxNegotiatedMessageSize p \<Longrightarrow>
   (100 \<le> wire_type src \<and> wire_type src \<le> 127) \<or> (150 \<le> wire_type src \<and> wire_type src \<le> 155) \<Longrightarrow>
     parseMessageHeader p src =
       Ok (\<lparr>messageSize = wire_size src, type = wire_type src, tag = wire_tag src\<rparr>, drop 7 src) \<and>
     remaining (drop 7 src) = remaining src - 7"
proof -
  assume a: "7 \<le> remaining src" "7 \<le> wire_size src" "wire_size src \<le> maxNegotiatedMessageSize p"
    and t: "(100 \<le> wire_type src \<and> wire_type src \<le> 127) \<or> (150 \<le> wire_type src \<and> wire_type src \<le> 155)"
  from t have "\<not> (wire_type src < 100 \<or> 156 \<le> wire_type src)"
    by (auto simp add: word_le_nat_alt word_less_nat_alt)
  moreover from a have "\<not> wire_size src < 7" "\<not> maxNegotiatedMessageSize p < wire_size src"
    by (simp_all add: not_less)
  ultimately show ?thesis using a(1)
    by (simp add: parseMessageHeader_unfold remaining_def)
qed

theorem C7_header_only_witness:
  "7 \<le> remaining [100, 0, 0, 0, 111, 7, 0] \<and>
   7 \<le> wire_size [100, 0, 0, 0, 111, 7, 0] \<and>
   wire_size [100, 0, 0, 0, 111, 7, 0] \<le> maxNegotiatedMessageSize Parser_default \<and>
   remaining (drop 7 [100, 0, 0, 0, 111, 7, 0 :: byte]) < unat (wire_size [100, 0, 0, 0, 111, 7, 0]) - 7 \<and>
   parseMessageHeader Parser_default [100, 0, 0, 0, 111, 7, 0] =
     Ok (\<lparr>messageSize = 100, type = RWalk, tag = 7\<rparr>, [])"
  using C7_header_only [of "[100, 0, 0, 0, 111, 7, 0]" Parser_default]
  by (simp add: remaining_def wire_size_def wire_type_def wire_tag_def maxNegotiatedMessageSize_def
      Parser_default_def Parser_ctor_def kMaxMesssageSize_def RWalk_def)

text \<open>
  Claim C1 says that, for a buffer of at least 7 bytes with a size field in
  \<open>[7, negotiated size]\<close>, the header parser fails with \<open>UnsupportedMessageType\<close> exactly when
  the type byte \<open>t\<close> satisfies \<open>t < 100\<close>, \<open>127 < t < 150\<close>, \<open>t > 155\<close> or \<open>t = 106\<close>. The header
  parser compares the byte with the two ends of the enumeration only, so the bytes 128 and 106
  are accepted.
\<close>

theorem C1_type_guard_counterexample:
  "7 \<le> remaining [7, 0, 0, 0, 128, 0, 0] \<and>
   7 \<le> wire_size [7, 0, 0, 0, 128, 0, 0] \<and>
   wire_size [7, 0, 0, 0, 128, 0, 0] \<le> maxNegotiatedMessageSize Parser_default \<and>
   (127 < wire_type [7, 0, 0, 0, 128, 0, 0] \<and> wire_type [7, 0, 0, 0, 128, 0, 0] < 150) \<and>
   parseMessageHeader Parser_default [7, 0, 0, 0, 128, 0, 0] =
     Ok (\<lparr>messageSize = 7, type = 128, tag = 0\<rparr>, []) \<and>
   wire_type [7, 0, 0, 0, 106, 0, 0] = 106 \<and>
   parseMessageHeader Parser_default [7, 0, 0, 0, 106, 0, 0] =
     Ok (\<lparr>messageSize = 7, type = TError, tag = 0\<rparr>, [])"
  by (simp add: parseMessageHeader_unfold remaining_def wire_size_def wire_type_def wire_tag_def
      maxNegotiatedMessageSize_def Parser_default_def Parser_ctor_def kMaxMesssageSize_def TError_def)

text \<open>
  Claim C1, amended. For every buffer of at least 7 bytes whose size field is in
  \<open>[7, negotiated size]\<close>, the header parser fails with \<open>UnsupportedMessageType\<close> exactly when
  the type byte is less than 100 or greater than 155.
\<close>

theorem C1_type_guard:
  "7 \<le> remaining src \<Longrightarrow>
   7 \<le> wire_size src \<Longrightarrow> wire_size src \<le> maxNegotiatedMessageSize p \<Longrightarrow>
     (parseMessageHeader p src = Err UnsupportedMessageType) =
       (wire_type src < 100 \<or> 155 < wire_type src)"
proof -
  assume a: "7 \<le> remaining src" "7 \<le> wire_size src" "wire_size src \<le> maxNegotiatedMessageSize p"
  have "(156 \<le> wire_type src) = (155 < wire_type src)"
    by (simp add: word_le_nat_alt word_less_nat_alt) arith
  with a show ?thesis
    by (auto simp add: parseMessageHeader_unfold)
qed

theorem C1_type_guard_witness:
  "7 \<le> remaining [7, 0, 0, 0, 99, 0, 0] \<and>
   7 \<le> wire_size [7, 0, 0, 0, 99, 0, 0] \<and>
   wire_size [7, 0, 0, 0, 99, 0, 0] \<le> maxNegotiatedMessageSize Parser_default \<and>
   parseMessageHeader Parser_default [7, 0, 0, 0, 99, 0, 0] = Err UnsupportedMessageType \<and>
   parseMessageHeader Parser_default [7, 0, 0, 0, 200, 0, 0] = Err UnsupportedMessageType \<and>
   parseMessageHeader Parser_default [7, 0, 0, 0, 149, 0, 0] \<noteq> Err UnsupportedMessageType"
  using C1_type_guard [of "[7, 0, 0, 0, 99, 0, 0]" Parser_default]
        C1_type_guard [of "[7, 0, 0, 0, 200, 0, 0]" Parser_default]
        C1_type_guard [of "[7, 0, 0, 0, 149, 0, 0]" Parser_default]
  by (simp add: remaining_def wire_size_def wire_type_def maxNegotiatedMessageSize_def
      Parser_default_def Parser_ctor_def kMaxMesssageSize_def)

subsection \<open>The payload parsers\<close>

lemma payloadSize_int:
  "uint (payloadSize h) = (uint (messageSize h) - 7) mod 2 ^ 32"
  by (simp add: payloadSize_def headerSize_def uint_word_ariths)

lemma payloadSize_ge7:
  "7 \<le> messageSize h \<Longrightarrow> uint (payloadSize h) = uint (messageSize h) - 7"
  by (simp add: payloadSize_def headerSize_def uint_minus_simple_alt)

text \<open>
  Claim C4 says that \<^verbatim>\<open>parseRequest\<close> and \<^verbatim>\<open>parseResponse\<close> fail with \<open>NotEnoughData\<close> if
  \<open>remaining < header.size - 7\<close> and with \<open>MoreThenExpectedData\<close> if
  \<open>remaining > header.size - 7\<close>, for every header. The code compares with
  \<^verbatim>\<open>payloadSize()\<close>, a \<^verbatim>\<open>uint32\<close> subtraction that wraps around: for a header of size 3 and
  an empty cursor, \<open>0 > 3 - 7\<close> holds in the integers, and both functions return
  \<open>NotEnoughData\<close>.
\<close>

theorem C4_predispatch_counterexample:
  "\<not> messageSize \<lparr>messageSize = 3, type = RFlush, tag = 0\<rparr> > maxNegotiatedMessageSize Parser_default \<and>
   \<not> int (remaining []) < uint (messageSize \<lparr>messageSize = 3, type = RFlush, tag = 0\<rparr>) - 7 \<and>
   int (remaining []) > uint (messageSize \<lparr>messageSize = 3, type = RFlush, tag = 0\<rparr>) - 7 \<and>
   parseResponse Parser_default \<lparr>messageSize = 3, type = RFlush, tag = 0\<rparr> [] = Err NotEnoughData \<and>
   parseResponse Parser_default \<lparr>messageSize = 3, type = RFlush, tag = 0\<rparr> [] \<noteq> Err MoreThenExpectedData \<and>
   parseRequest Parser_default \<lparr>messageSize = 3, type = TClunk, tag = 0\<rparr> [] = Err NotEnoughData"
  by (simp add: parseResponse_def parseRequest_def payloadSize_def headerSize_def remaining_def
      maxNegotiatedMessageSize_def Parser_default_def Parser_ctor_def kMaxMesssageSize_def)

text \<open>
  Claim C4, amended. For every header and cursor passed to \<^verbatim>\<open>parseRequest\<close> or
  \<^verbatim>\<open>parseResponse\<close>, with the expected payload size \<open>(header.size - 7) mod 2^32\<close> (which is
  \<open>header.size - 7\<close> whenever \<open>header.size \<ge> 7\<close>): if \<open>header.size\<close> exceeds the negotiated
  size the call fails with \<open>IllFormedHeader_TooBig\<close>; otherwise if fewer bytes remain than
  expected it fails with \<open>NotEnoughData\<close>; otherwise if more bytes remain than expected it
  fails with \<open>MoreThenExpectedData\<close>; the payload is decoded, by the switch on the type, only
  when the bytes that remain are exactly the expected number.
\<close>

theorem C4_predispatch:
  "(messageSize h > maxNegotiatedMessageSize p \<longrightarrow>
      parseResponse p h d = Err IllFormedHeader_TooBig \<and>
      parseRequest p h d = Err IllFormedHeader_TooBig) \<and>
   (\<not> messageSize h > maxNegotiatedMessageSize p \<and> int (remaining d) < (uint (messageSize h) - 7) mod 2 ^ 32 \<longrightarrow>
      parseResponse p h d = Err NotEnoughData \<and>
      parseRequest p h d = Err NotEnoughData) \<and>
   (\<not> messageSize h > maxNegotiatedMessageSize p \<and> int (remaining d) > (uint (messageSize h) - 7) mod 2 ^ 32 \<longrightarrow>
      parseResponse p h d = Err MoreThenExpectedData \<and>
      parseRequest p h d = Err MoreThenExpectedData) \<and>
   (\<not> messageSize h > maxNegotiatedMessageSize p \<and> int (remaining d) = (uint (messageSize h) - 7) mod 2 ^ 32 \<longrightarrow>
      parseResponse p h d = responseSwitch (type h) d \<and>
      parseRequest p h d = requestSwitch (type h) d) \<and>
   (7 \<le> messageSize h \<longrightarrow> (uint (messageSize h) - 7) mod 2 ^ 32 = uint (messageSize h) - 7)"
proof -
  define n where "n = unat (payloadSize h)"
  have e: "(uint (messageSize h) - 7) mod 2 ^ 32 = int n"
    by (simp add: n_def payloadSize_int)
  have g: "7 \<le> messageSize h \<longrightarrow> int n = uint (messageSize h) - 7"
    by (simp add: n_def payloadSize_ge7)
  have r: "parseResponse p h d =
      (if messageSize h > maxNegotiatedMessageSize p then Err IllFormedHeader_TooBig
       else if n > remaining d then Err NotEnoughData
       else if n < remaining d then Err MoreThenExpectedData
       else responseSwitch (type h) d)"
    by (simp add: parseResponse_def Let_def n_def)
  have q: "parseRequest p h d =
      (if messageSize h > maxNegotiatedMessageSize p then Err IllFormedHeader_TooBig
       else if n > remaining d then Err NotEnoughData
       else if n < remaining d then Err MoreThenExpectedData
       else requestSwitch (type h) d)"
    by (simp add: parseRequest_def Let_def n_def)
  show ?thesis
    unfolding e r q using g by simp
qed

theorem C4_predispatch_witness:
  "messageSize \<lparr>messageSize = 9000, type = RFlush, tag = 1\<rparr> > maxNegotiatedMessageSize Parser_default \<and>
   parseResponse Parser_default \<lparr>messageSize = 9000, type = RFlush, tag = 1\<rparr> [] = Err IllFormedHeader_TooBig \<and>
   parseRequest Parser_default \<lparr>messageSize = 9000, type = RFlush, tag = 1\<rparr> [] = Err IllFormedHeader_TooBig \<and>
   int (remaining [5, 0]) < (uint (messageSize \<lparr>messageSize = 11, type = RWrite, tag = 1\<rparr>) - 7) mod 2 ^ 32 \<and>
   parseResponse Parser_default \<lparr>messageSize = 11, type = RWrite, tag = 1\<rparr> [5, 0] = Err NotEnoughData \<and>
   parseRequest Parser_default \<lparr>messageSize = 11, type = RWrite, tag = 1\<rparr> [5, 0] = Err NotEnoughData \<and>
   int (remaining [5, 0, 0, 0, 0]) > (uint (messageSize \<lparr>messageSize = 11, type = RWrite, tag = 1\<rparr>) - 7) mod 2 ^ 32 \<and>
   parseResponse Parser_default \<lparr>messageSize = 11, type = RWrite, tag = 1\<rparr> [5, 0, 0, 0, 0] = Err MoreThenExpectedData \<and>
   parseRequest Parser_default \<lparr>messageSize = 11, type = RWrite, tag = 1\<rparr> [5, 0, 0, 0, 0] = Err MoreThenExpectedData \<and>
   int (remaining [5, 0, 0, 0]) = (uint (messageSize \<lparr>messageSize = 11, type = RWrite, tag = 1\<rparr>) - 7) mod 2 ^ 32 \<and>
   parseResponse Parser_default \<lparr>messageSize = 11, type = RWrite, tag = 1\<rparr> [5, 0, 0, 0] =
     responseSwitch RWrite [5, 0, 0, 0] \<and>
   parseRequest Parser_default \<lparr>messageSize = 11, type = RWrite, tag = 1\<rparr> [5, 0, 0, 0] =
     requestSwitch RWrite [5, 0, 0, 0]"
  using C4_predispatch [where h = "\<lparr>messageSize = 9000, type = RFlush, tag = 1\<rparr>" and p = Parser_default and d = "[]"]
        C4_predispatch [where h = "\<lparr>messageSize = 11, type = RWrite, tag = 1\<rparr>" and p = Parser_default and d = "[5, 0]"]
        C4_predispatch [where h = "\<lparr>messageSize = 11, type = RWrite, tag = 1\<rparr>" and p = Parser_default and d = "[5, 0, 0, 0, 0]"]
        C4_predispatch [where h = "\<lparr>messageSize = 11, type = RWrite, tag = 1\<rparr>" and p = Parser_default and d = "[5, 0, 0, 0]"]
  by (simp add: remaining_def maxNegotiatedMessageSize_def Parser_default_def Parser_ctor_def
      kMaxMesssageSize_def)

lemma parseReadResponse_variant:
  "parseReadResponse d = Ok (m, r) \<Longrightarrow> \<exists>dat. m = Response_Read dat"
  by (auto simp add: parseReadResponse_def andThen_def split: Result.splits prod.splits)

lemma parseWriteResponse_variant:
  "parseWriteResponse d = Ok (m, r) \<Longrightarrow> \<exists>count. m = Response_Write count"
  by (auto simp add: parseWriteResponse_def andThen_def split: Result.splits prod.splits)

lemma responseSwitch_RSRead: "responseSwitch RSRead d = parseReadResponse d"
  by (simp add: responseSwitch_def MessageType_defs)

lemma responseSwitch_RRead: "responseSwitch RRead d = parseReadResponse d"
  by (simp add: responseSwitch_def MessageType_defs)

lemma responseSwitch_RSWrite: "responseSwitch RSWrite d = parseWriteResponse d"
  by (simp add: responseSwitch_def MessageType_defs)

lemma responseSwitch_RWrite: "responseSwitch RWrite d = parseWriteResponse d"
  by (simp add: responseSwitch_def MessageType_defs)

lemma parseResponse_checked:
  "parseResponse p h d =
     (if messageSize h > maxNegotiatedMessageSize p then Err IllFormedHeader_TooBig
      else if unat (payloadSize h) > remaining d then Err NotEnoughData
      else if unat (payloadSize h) < remaining d then Err MoreThenExpectedData
      else responseSwitch (type h) d)"
  by (simp add: parseResponse_def Let_def)

lemma parseRequest_checked:
  "parseRequest p h d =
     (if messageSize h > maxNegotiatedMessageSize p then Err IllFormedHeader_TooBig
      else if unat (payloadSize h) > remaining d then Err NotEnoughData
      else if unat (payloadSize h) < remaining d then Err MoreThenExpectedData
      else requestSwitch (type h) d)"
  by (simp add: parseRequest_def Let_def)

text \<open>
  Claim C8. For every frame whose header type is \<open>RSRead\<close> (153), \<^verbatim>\<open>parseResponse\<close> gives
  what it gives for the same frame with the type \<open>RRead\<close> (117): the size checks, then
  \<^verbatim>\<open>parseReadResponse\<close>, and a message it returns is the \<open>Response_Read\<close> variant. For
  \<open>RSWrite\<close> (155) the same holds with \<open>RWrite\<close> (119), \<^verbatim>\<open>parseWriteResponse\<close> and the
  \<open>Response_Write\<close> variant.
\<close>

theorem C8_aliasing:
  "parseResponse p (h\<lparr>type := RSRead\<rparr>) d = parseResponse p (h\<lparr>type := RRead\<rparr>) d \<and>
   parseResponse p (h\<lparr>type := RSWrite\<rparr>) d = parseResponse p (h\<lparr>type := RWrite\<rparr>) d \<and>
   (\<not> messageSize h > maxNegotiatedMessageSize p \<and> unat (payloadSize h) = remaining d \<longrightarrow>
      parseResponse p (h\<lparr>type := RSRead\<rparr>) d = parseReadResponse d \<and>
      parseResponse p (h\<lparr>type := RSWrite\<rparr>) d = parseWriteResponse d) \<and>
   (\<forall>m r. parseResponse p (h\<lparr>type := RSRead\<rparr>) d = Ok (m, r) \<longrightarrow> (\<exists>dat. m = Response_Read dat)) \<and>
   (\<forall>m r. parseResponse p (h\<lparr>type := RSWrite\<rparr>) d = Ok (m, r) \<longrightarrow> (\<exists>count. m = Response_Write count))"
proof -
  have ps: "payloadSize (h\<lparr>type := t\<rparr>) = payloadSize h" for t
    by (simp add: payloadSize_def)
  have rd: "parseResponse p (h\<lparr>type := RSRead\<rparr>) d = Ok (m, r) \<Longrightarrow> \<exists>dat. m = Response_Read dat" for m r
    by (auto simp add: parseResponse_checked ps responseSwitch_RSRead
        split: if_splits dest: parseReadResponse_variant)
  have wr: "parseResponse p (h\<lparr>type := RSWrite\<rparr>) d = Ok (m, r) \<Longrightarrow> \<exists>c. m = Response_Write c" for m r
    by (auto simp add: parseResponse_checked ps responseSwitch_RSWrite
        split: if_splits dest: parseWriteResponse_variant)
  show ?thesis
    using rd wr
    by (simp add: parseResponse_checked ps responseSwitch_RSRead responseSwitch_RRead
        responseSwitch_RSWrite responseSwitch_RWrite)
qed

theorem C8_aliasing_witness:
  "\<not> messageSize \<lparr>messageSize = 14, type = RSRead, tag = 1\<rparr> > maxNegotiatedMessageSize Parser_default \<and>
   unat (payloadSize \<lparr>messageSize = 14, type = RSRead, tag = 1\<rparr>) = remaining [3, 0, 0, 0, 10, 20, 30] \<and>
   parseResponse Parser_default \<lparr>messageSize = 14, type = RSRead, tag = 1\<rparr> [3, 0, 0, 0, 10, 20, 30] =
     parseReadResponse [3, 0, 0, 0, 10, 20, 30] \<and>
   parseResponse Parser_default \<lparr>messageSize = 14, type = RSRead, tag = 1\<rparr> [3, 0, 0, 0, 10, 20, 30] =
     Ok (Response_Read [10, 20, 30], []) \<and>
   parseResponse Parser_default \<lparr>messageSize = 14, type = RSWrite, tag = 1\<rparr> [3, 0, 0, 0, 10, 20, 30] =
     parseResponse Parser_default \<lparr>messageSize = 14, type = RWrite, tag = 1\<rparr> [3, 0, 0, 0, 10, 20, 30]"
proof -
  let ?h = "\<lparr>messageSize = 14, type = RSRead, tag = 1\<rparr>"
  let ?d = "[3, 0, 0, 0, 10, 20, 30] :: bytes"
  have pre: "\<not> messageSize ?h > maxNegotiatedMessageSize Parser_default \<and>
      unat (payloadSize ?h) = remaining ?d"
    by (simp add: remaining_def maxNegotiatedMessageSize_def Parser_default_def Parser_ctor_def
        kMaxMesssageSize_def payloadSize_def headerSize_def)
  have val: "parseReadResponse ?d = Ok (Response_Read [10, 20, 30], [])"
    by (simp add: parseReadResponse_def decode_blob_def decode_uint32_def readBytes_def
        andThen_def remaining_def)
  have upd: "?h\<lparr>type := t\<rparr> = \<lparr>messageSize = 14, type = t, tag = 1\<rparr>" for t
    by simp
  from C8_aliasing [where p = Parser_default and h = ?h and d = ?d] pre
  have "parseResponse Parser_default ?h ?d = parseReadResponse ?d"
    and "parseResponse Parser_default \<lparr>messageSize = 14, type = RSWrite, tag = 1\<rparr> ?d =
         parseResponse Parser_default \<lparr>messageSize = 14, type = RWrite, tag = 1\<rparr> ?d"
    unfolding upd by blast+
  with pre val show ?thesis by simp
qed

lemma requestSwitch_default:
  "t \<notin> {TVersion, TAuth, TFlush, TAttach, TWalk, TOpen, TCreate, TRead, TWrite, TClunk,
         TRemove, TStat, TWStat, TSession, TSRead, TSWrite} \<Longrightarrow>
   requestSwitch t d = Err UnsupportedMessageType"
  by (simp add: requestSwitch_def)

lemma responseSwitch_default:
  "t \<notin> {RError, RVersion, RAuth, RAttach, RWalk, ROpen, RCreate, RSRead, RRead, RSWrite,
         RWrite, RStat, RFlush, RClunk, RRemove, RWStat, RSession} \<Longrightarrow>
   responseSwitch t d = Err UnsupportedMessageType"
  by (simp add: responseSwitch_def)

lemma unassigned_codes_rejected_by_switch:
  "t = TError \<or> (128 \<le> t \<and> t \<le> 149) \<Longrightarrow>
   requestSwitch t d = Err UnsupportedMessageType \<and>
   responseSwitch t d = Err UnsupportedMessageType"
proof -
  assume t: "t = TError \<or> (128 \<le> t \<and> t \<le> 149)"
  then have "t \<notin> {TVersion, TAuth, TFlush, TAttach, TWalk, TOpen, TCreate, TRead, TWrite, TClunk,
         TRemove, TStat, TWStat, TSession, TSRead, TSWrite}"
    by (auto simp add: MessageType_defs)
  moreover from t have "t \<notin> {RError, RVersion, RAuth, RAttach, RWalk, ROpen, RCreate, RSRead,
         RRead, RSWrite, RWrite, RStat, RFlush, RClunk, RRemove, RWStat, RSession}"
    by (auto simp add: MessageType_defs)
  ultimately show ?thesis
    using requestSwitch_default [of t d] responseSwitch_default [of t d] by blast
qed

text \<open>
  Claim C10. For every header that passes the three size checks, \<^verbatim>\<open>parseRequest\<close> returns
  \<open>UnsupportedMessageType\<close> when the type is a response code (the odd codes of \<open>101..127\<close>,
  151, 153, 155) or \<open>TError\<close> (106), and \<^verbatim>\<open>parseResponse\<close> returns
  \<open>UnsupportedMessageType\<close> when the type is a request code (the even codes of \<open>100..126\<close>,
  150, 152, 154) or \<open>TError\<close>. The header parser accepts every one of these codes: a
  buffer with a valid size field and such a type byte gives a header of that type.
\<close>

theorem C10_cross_dispatch:
  "\<not> messageSize h > maxNegotiatedMessageSize p \<Longrightarrow> unat (payloadSize h) = remaining d \<Longrightarrow>
     ((101 \<le> type h \<and> type h \<le> 127 \<and> odd (unat (type h))) \<or>
        type h = 151 \<or> type h = 153 \<or> type h = 155 \<or> type h = TError \<longrightarrow>
        parseRequest p h d = Err UnsupportedMessageType) \<and>
     ((100 \<le> type h \<and> type h \<le> 126 \<and> even (unat (type h))) \<or>
        type h = 150 \<or> type h = 152 \<or> type h = 154 \<or> type h = TError \<longrightarrow>
        parseResponse p h d = Err UnsupportedMessageType) \<and>
     ((100 \<le> type h \<and> type h \<le> 127) \<or> (150 \<le> type h \<and> type h \<le> 155) \<longrightarrow>
        (\<forall>src. 7 \<le> remaining src \<and> 7 \<le> wire_size src \<and>
           wire_size src \<le> maxNegotiatedMessageSize p \<and> wire_type src = type h \<longrightarrow>
           parseMessageHeader p src =
             Ok (\<lparr>messageSize = wire_size src, type = type h, tag = wire_tag src\<rparr>, drop 7 src)))"
proof -
  assume a: "\<not> messageSize h > maxNegotiatedMessageSize p" "unat (payloadSize h) = remaining d"
  have rq: "parseRequest p h d = requestSwitch (type h) d"
    using a by (simp add: parseRequest_checked)
  have rs: "parseResponse p h d = responseSwitch (type h) d"
    using a by (simp add: parseResponse_checked)
  have 1: "(101 \<le> type h \<and> type h \<le> 127 \<and> odd (unat (type h))) \<or>
        type h = 151 \<or> type h = 153 \<or> type h = 155 \<or> type h = TError \<Longrightarrow>
      type h \<notin> {TVersion, TAuth, TFlush, TAttach, TWalk, TOpen, TCreate, TRead, TWrite, TClunk,
         TRemove, TStat, TWStat, TSession, TSRead, TSWrite}"
    by (auto simp add: MessageType_defs)
  have 2: "(100 \<le> type h \<and> type h \<le> 126 \<and> even (unat (type h))) \<or>
        type h = 150 \<or> type h = 152 \<or> type h = 154 \<or> type h = TError \<Longrightarrow>
      type h \<notin> {RError, RVersion, RAuth, RAttach, RWalk, ROpen, RCreate, RSRead, RRead, RSWrite,
         RWrite, RStat, RFlush, RClunk, RRemove, RWStat, RSession}"
    by (auto simp add: MessageType_defs)
  have 3: "parseMessageHeader p src =
      Ok (\<lparr>messageSize = wire_size src, type = type h, tag = wire_tag src\<rparr>, drop 7 src)"
    if t: "(100 \<le> type h \<and> type h \<le> 127) \<or> (150 \<le> type h \<and> type h \<le> 155)"
      and s: "7 \<le> remaining src" "7 \<le> wire_size src"
        "wire_size src \<le> maxNegotiatedMessageSize p" "wire_type src = type h" for src
  proof -
    from t have "\<not> (type h < 100 \<or> 156 \<le> type h)"
      by (auto simp add: word_le_nat_alt word_less_nat_alt)
    moreover from s have "\<not> wire_size src < 7" "\<not> maxNegotiatedMessageSize p < wire_size src"
      by (simp_all add: not_less)
    ultimately show ?thesis using s(1,4)
      by (simp add: parseMessageHeader_unfold)
  qed
  have 12: "((101 \<le> type h \<and> type h \<le> 127 \<and> odd (unat (type h))) \<or>
        type h = 151 \<or> type h = 153 \<or> type h = 155 \<or> type h = TError \<longrightarrow>
        requestSwitch (type h) d = Err UnsupportedMessageType) \<and>
     ((100 \<le> type h \<and> type h \<le> 126 \<and> even (unat (type h))) \<or>
        type h = 150 \<or> type h = 152 \<or> type h = 154 \<or> type h = TError \<longrightarrow>
        responseSwitch (type h) d = Err UnsupportedMessageType)"
    using 1 2 requestSwitch_default responseSwitch_default by blast
  show ?thesis
    unfolding rq rs using 12 3 by blast
qed

theorem C10_cross_dispatch_witness:
  "\<not> messageSize \<lparr>messageSize = 11, type = RWrite, tag = 1\<rparr> > maxNegotiatedMessageSize Parser_default \<and>
   unat (payloadSize \<lparr>messageSize = 11, type = RWrite, tag = 1\<rparr>) = remaining [5, 0, 0, 0] \<and>
   parseRequest Parser_default \<lparr>messageSize = 11, type = RWrite, tag = 1\<rparr> [5, 0, 0, 0] =
     Err UnsupportedMessageType \<and>
   parseResponse Parser_default \<lparr>messageSize = 11, type = TClunk, tag = 1\<rparr> [5, 0, 0, 0] =
     Err UnsupportedMessageType \<and>
   parseRequest Parser_default \<lparr>messageSize = 11, type = TError, tag = 1\<rparr> [5, 0, 0, 0] =
     Err UnsupportedMessageType \<and>
   parseResponse Parser_default \<lparr>messageSize = 11, type = TError, tag = 1\<rparr> [5, 0, 0, 0] =
     Err UnsupportedMessageType \<and>
   parseMessageHeader Parser_default [11, 0, 0, 0, 106, 1, 0] =
     Ok (\<lparr>messageSize = 11, type = TError, tag = 1\<rparr>, [])"
  using C10_cross_dispatch [where h = "\<lparr>messageSize = 11, type = RWrite, tag = 1\<rparr>" and p = Parser_default and d = "[5, 0, 0, 0]"]
        C10_cross_dispatch [where h = "\<lparr>messageSize = 11, type = TClunk, tag = 1\<rparr>" and p = Parser_default and d = "[5, 0, 0, 0]"]
        C10_cross_dispatch [where h = "\<lparr>messageSize = 11, type = TError, tag = 1\<rparr>" and p = Parser_default and d = "[5, 0, 0, 0]"]
        C10_cross_dispatch [where h = "\<lparr>messageSize = 11, type = TError, tag = 1\<rparr>" and p = Parser_default and d = "[5, 0, 0, 0]",
          THEN conjunct2, THEN conjunct2, THEN mp, THEN spec, where x = "[11, 0, 0, 0, 106, 1, 0]"]
  by (simp add: remaining_def maxNegotiatedMessageSize_def Parser_default_def Parser_ctor_def
      kMaxMesssageSize_def payloadSize_def headerSize_def RWrite_def TClunk_def TError_def
      wire_size_def wire_type_def wire_tag_def)

subsection \<open>The constants and the negotiated size\<close>

text \<open>
  Claim C9. The maximum message size constant is 8192; a parser constructed with the
  default arguments has configured and negotiated maximum message size 8192 and negotiated
  version \<open>9P2000.e\<close>; the fallback version string is \<open>unknown\<close>.
\<close>

theorem C9_defaults:
  "kMaxMesssageSize = 8192 \<and>
   maxPossibleMessageSize Parser_default = 8192 \<and>
   maxNegotiatedMessageSize Parser_default = 8192 \<and>
   getNegotiatedVersion Parser_default = ''9P2000.e'' \<and>
   UNKNOWN_PROTOCOL_VERSION = ''unknown''"
  by (simp add: kMaxMesssageSize_def maxPossibleMessageSize_def maxNegotiatedMessageSize_def
      getNegotiatedVersion_def Parser_default_def Parser_ctor_def PROTOCOL_VERSION_def
      UNKNOWN_PROTOCOL_VERSION_def)

text \<open>
  Claim C3 says that the setter returns \<open>min(x, configured_msize)\<close> for every \<open>x\<close>. On a
  parser with the default configured size 8192, the call with \<open>x = 8193\<close> does not return the
  minimum 8192: the assertion at the head of the function fails and the call raises. (The
  lemmas after the theorem give the rest: a call with \<open>x\<close> up to the configured size returns
  and stores \<open>x\<close>, and the negotiated size never exceeds the configured one.)
\<close>

theorem C3_negotiation_raises:
  "setMaxNegotiatedMessageSize Parser_default 8193 = Inl IndexOutOfRangeException \<and>
   min 8193 (maxPossibleMessageSize Parser_default) = 8192"
  by (simp add: setMaxNegotiatedMessageSize_def assertIndexInRange_def maxPossibleMessageSize_def
      Parser_default_def Parser_ctor_def kMaxMesssageSize_def)

lemma assertIndexInRange_upto:
  "assertIndexInRange x 0 (m + 1) = (m \<noteq> - 1 \<and> x \<le> m)"
proof -
  have "(x < m + 1) = (\<not> (m + 1 \<le> x))"
    by (simp add: not_le)
  then show ?thesis
    by (auto simp add: assertIndexInRange_def inc_less_eq_iff)
qed

lemma setMaxNegotiatedMessageSize_in_range:
  "x \<le> maxPossibleMessageSize p \<Longrightarrow> maxPossibleMessageSize p \<noteq> - 1 \<Longrightarrow>
   setMaxNegotiatedMessageSize p x = Inr (x, p\<lparr>maxNegotiatedMessageSize_field := x\<rparr>)"
  by (simp add: setMaxNegotiatedMessageSize_def assertIndexInRange_upto min_def)

lemma setMaxNegotiatedMessageSize_out_of_range:
  "maxPossibleMessageSize p < x \<Longrightarrow>
   setMaxNegotiatedMessageSize p x = Inl IndexOutOfRangeException"
  by (simp add: setMaxNegotiatedMessageSize_def assertIndexInRange_upto not_le)

lemma setMaxNegotiatedMessageSize_cap:
  "setMaxNegotiatedMessageSize p x = Inr (v, p') \<Longrightarrow>
   v = min x (maxPossibleMessageSize p) \<and> maxNegotiatedMessageSize p' = v \<and>
   maxPossibleMessageSize p' = maxPossibleMessageSize p \<and>
   maxNegotiatedMessageSize p' \<le> maxPossibleMessageSize p'"
  by (auto simp add: setMaxNegotiatedMessageSize_def Let_def maxPossibleMessageSize_def
      maxNegotiatedMessageSize_def split: if_splits)

lemma negotiateAll_cap:
  "maxNegotiatedMessageSize p \<le> maxPossibleMessageSize p \<Longrightarrow>
   maxNegotiatedMessageSize (negotiateAll p xs) \<le> maxPossibleMessageSize (negotiateAll p xs) \<and>
   maxPossibleMessageSize (negotiateAll p xs) = maxPossibleMessageSize p"
proof (induction xs arbitrary: p)
  case Nil
  then show ?case by simp
next
  case (Cons x xs)
  show ?case
  proof (cases "setMaxNegotiatedMessageSize p x")
    case (Inl e)
    with Cons.IH [of p] Cons.prems show ?thesis by auto
  next
    case (Inr vp)
    obtain v p' where vp: "vp = (v, p')" by (cases vp)
    from Inr vp setMaxNegotiatedMessageSize_cap [of p x v p']
    have "maxNegotiatedMessageSize p' \<le> maxPossibleMessageSize p'"
      and "maxPossibleMessageSize p' = maxPossibleMessageSize p" by simp_all
    with Cons.IH [of p'] Inr vp show ?thesis by auto
  qed
qed

subsection \<open>The walk response\<close>

lemma decode_Qid_short:
  "length src < 13 \<Longrightarrow> decode_Qid src = Err NotEnoughData"
  by (auto simp add: decode_Qid_def decode_byte_def decode_uint32_def decode_uint64_def
      readBytes_def remaining_def andThen_def)

lemma decode_Qid_long:
  "13 \<le> length src \<Longrightarrow> \<exists>q. decode_Qid src = Ok (q, drop 13 src)"
  by (auto simp add: decode_Qid_def decode_byte_def decode_uint32_def decode_uint64_def
      readBytes_def remaining_def andThen_def)

lemma walkLoop_overrun:
  "i \<le> 16 \<Longrightarrow> 16 < nqids \<Longrightarrow>
   walkLoop i nqids src qids =
     (if length src < 13 * (16 - i) then Err NotEnoughData else OutOfBounds 16)"
proof (induction "16 - i" arbitrary: i src qids)
  case 0
  then have "i = 16" by simp
  with 0 show ?case by simp
next
  case (Suc k)
  then have i: "i < 16" "i < nqids" by simp_all
  show ?case
  proof (cases "length src < 13")
    case True
    with i show ?thesis by (simp add: decode_Qid_short)
  next
    case False
    then obtain q where q: "decode_Qid src = Ok (q, drop 13 src)"
      using decode_Qid_long [of src] by auto
    have "k = 16 - (i + 1)" using Suc(2) by simp
    from Suc(1) [OF this, of "drop 13 src" "qids[i := Some q]"] Suc(3,4) i
    have "walkLoop (i + 1) nqids (drop 13 src) (qids[i := Some q]) =
       (if length (drop 13 src) < 13 * (16 - (i + 1)) then Err NotEnoughData else OutOfBounds 16)"
      by simp
    with i q False show ?thesis
      by (simp del: walkLoop.simps add: walkLoop.simps [of i]) arith
  qed
qed

lemma parseWalkResponse_overrun:
  "2 \<le> length src \<Longrightarrow> 16 < (of_nat (le_nat (take 2 src)) :: uint16) \<Longrightarrow>
   parseWalkResponse src =
     (if length src < 2 + 13 * 16 then Err NotEnoughData else OutOfBounds 16)"
  by (auto simp add: parseWalkResponse_def decode_uint16_def readBytes_def remaining_def andThen_def
      walkLoop_overrun word_less_nat_alt simp del: walkLoop.simps)

text \<open>
  Claim C2 says that an \<open>RWalk\<close> frame that declares more than 16 qids is rejected with an
  error and that no slot at index 16 or beyond is touched. The frame of 230 bytes whose
  payload is the count 17 and 17 encoded qids passes the size checks of \<^verbatim>\<open>parseResponse\<close>,
  and the loop of \<^verbatim>\<open>parseWalkResponse\<close> reaches \<^verbatim>\<open>fcall.qids[16]\<close>.
\<close>

theorem C2_walk_bound_overrun:
  "\<not> messageSize \<lparr>messageSize = 230, type = RWalk, tag = 1\<rparr> > maxNegotiatedMessageSize Parser_default \<and>
   unat (payloadSize \<lparr>messageSize = 230, type = RWalk, tag = 1\<rparr>) = remaining ([17, 0] @ replicate 221 0) \<and>
   decode_uint16 ([17, 0] @ replicate 221 0) = Ok (17, replicate 221 0) \<and>
   parseResponse Parser_default \<lparr>messageSize = 230, type = RWalk, tag = 1\<rparr> ([17, 0] @ replicate 221 0) =
     OutOfBounds 16"
proof -
  have "parseWalkResponse ([17, 0] @ replicate 221 0) = OutOfBounds 16"
    by (simp add: parseWalkResponse_overrun)
  then show ?thesis
    by (simp add: parseResponse_def responseSwitch_def MessageType_defs payloadSize_def headerSize_def
        remaining_def maxNegotiatedMessageSize_def Parser_default_def Parser_ctor_def
        kMaxMesssageSize_def decode_uint16_def readBytes_def andThen_def)
qed

end
